theory Spec2Isabelle
  imports Complex_Main "HOL-Library.Multiset" "HOL-Library.Char_ord" "HOL-Library.List_Lexorder"
begin

section \<open>Data model\<close>

text \<open>
  The scripts work on pandas data frames.  A frame is modelled as the list of its rows, in
  row order; a row is a record with one field per column.  The fifteen identifier columns
  are the \<open>id_vars\<close> list of \<open>convert_to_long_format\<close>; their names are
  kept as far as an identifier allows (\<open>KEY MANU  & KINZA\<close> is \<open>KEY_MANU_KINZA\<close>,
  \<open>CSD & CSD +\<close> is \<open>CSD_CSD_plus\<close>).  Numeric cells are real numbers: the arithmetic
  of the scripts is modelled exactly, rounding of binary floating point is not modelled, and
  neither are missing cells.
\<close>

record id_vars =
  Region :: string
  Province :: string
  Precision_Area :: string
  MARKET :: string
  KEY_MANU_KINZA :: string
  BRAND :: string
  Brand_2 :: string
  CSD_CSD_plus :: string
  CSD_Flavor_Segment :: string
  REG_DIET :: string
  KEY_PACKS :: string
  SUB_BRAND :: string
  PACK_TYPE :: string
  PACK_SIZE :: string
  ITEM :: string

text \<open>A row of the wide sheet: the identifiers and, for every value column name, its cell.\<close>

record wide_row = id_vars +
  cell :: "string \<Rightarrow> real"

text \<open>The wide frame \<open>df_original\<close>: its column names in sheet order, and its rows.\<close>

record wide_table =
  columns :: "string list"
  rows :: "wide_row list"

text \<open>A row after \<open>pd.melt\<close>: identifiers, \<open>Month\<close> (the column name) and \<open>Sales\<close>.\<close>

record melted_row = id_vars +
  Month :: string
  Sales :: real

text \<open>A timestamp as \<open>pd.to_datetime\<close> with format \<open>%b%y\<close> yields it: the day is always 1.\<close>

datatype date = Timestamp (ts_year: nat) (ts_month: nat)

record dated_row = melted_row +
  Date :: date

record long_row = dated_row +
  Month_Name :: string
  Month_Num :: nat
  Quarter :: nat
  Year :: nat

text \<open>
  \<open>df_long\<close> holds either the melted frame (the state in which an exception of
  \<open>to_datetime\<close> leaves it) or the finished long frame.
\<close>

datatype frame = Melted "melted_row list" | Long "long_row list"

record loader =
  df_original :: "wide_table option"
  df_long :: "frame option"
  monthly_cols :: "string list"

section \<open>The normalizer: \<open>clean_data\<close>\<close>

text \<open>
  \<open>DataFrame.duplicated()\<close> marks a row that equals an earlier row in every column;
  \<open>drop_duplicates()\<close> keeps the rows that are not marked, so the first occurrence stays.
\<close>

primrec duplicated_from :: "'a list \<Rightarrow> 'a list \<Rightarrow> bool list" where
  "duplicated_from seen [] = []"
| "duplicated_from seen (x # xs) = (x \<in> set seen) # duplicated_from (x # seen) xs"

definition duplicated :: "'a list \<Rightarrow> bool list" where
  "duplicated df = duplicated_from [] df"

definition drop_duplicates :: "'a list \<Rightarrow> 'a list" where
  "drop_duplicates df = map fst (filter (\<lambda>p. \<not> snd p) (zip df (duplicated df)))"

text \<open>\<open>df.loc[df['Sales'] < 0, 'Sales'] = 0\<close>\<close>

definition clip_row :: "'a melted_row_scheme \<Rightarrow> 'a melted_row_scheme" where
  "clip_row r = (if Sales r < 0 then r\<lparr>Sales := 0\<rparr> else r)"

definition clip_negative :: "'a melted_row_scheme list \<Rightarrow> 'a melted_row_scheme list" where
  "clip_negative df = map clip_row df"

text \<open>
  The two counts \<open>clean_data\<close> prints: \<open>duplicates\<close> is \<open>df.duplicated().sum()\<close>,
  \<open>negative_sales\<close> is \<open>(df['Sales'] < 0).sum()\<close>, taken after the duplicates are gone.
\<close>

record clean_report =
  duplicates :: nat
  negative_sales :: nat

definition count_True :: "bool list \<Rightarrow> nat" where
  "count_True bs = length (filter (\<lambda>b. b) bs)"

definition clean_frame ::
  "'a melted_row_scheme list \<Rightarrow> 'a melted_row_scheme list \<times> clean_report" where
  "clean_frame df =
     (let dups = count_True (duplicated df);
          df1 = (if dups > 0 then drop_duplicates df else df);
          negs = count_True (map (\<lambda>r. Sales r < 0) df1);
          df2 = (if negs > 0 then clip_negative df1 else df1)
      in (df2, \<lparr>duplicates = dups, negative_sales = negs\<rparr>))"

text \<open>
  \<open>clean_data\<close> returns \<open>False\<close> when there is no long frame; otherwise it cleans
  the frame in place and returns \<open>True\<close>.  The report is what it printed.
\<close>

definition clean_data :: "loader \<Rightarrow> bool \<times> loader \<times> clean_report option" where
  "clean_data l =
     (case df_long l of
        None \<Rightarrow> (False, l, None)
      | Some (Melted df) \<Rightarrow>
          (let (df', rep) = clean_frame df in (True, l\<lparr>df_long := Some (Melted df')\<rparr>, Some rep))
      | Some (Long df) \<Rightarrow>
          (let (df', rep) = clean_frame df in (True, l\<lparr>df_long := Some (Long df')\<rparr>, Some rep)))"

section \<open>The long-format transformer\<close>

text \<open>The year marker \<open>'24\<close> of \<open>identify_monthly_columns\<close>, and Python's \<open>sub in s\<close>.\<close>

definition year_marker :: string where
  "year_marker = CHR 0x27 # ''24''"

primrec contains :: "string \<Rightarrow> string \<Rightarrow> bool" where
  "contains [] sub = (sub = [])"
| "contains (c # cs) sub = (take (length sub) (c # cs) = sub \<or> contains cs sub)"

text \<open>
  \<open>identify_monthly_columns\<close> reads \<open>self.df_original.columns\<close>: without a loaded
  frame that is an AttributeError nothing catches (\<open>None\<close>).  Otherwise it stores and
  returns the columns that contain the marker, in sheet order; it checks nothing else.
\<close>

definition identify_monthly_columns :: "loader \<Rightarrow> loader option" where
  "identify_monthly_columns l =
     (case df_original l of
        None \<Rightarrow> None
      | Some df \<Rightarrow> Some (l\<lparr>monthly_cols := filter (\<lambda>col. contains col year_marker) (columns df)\<rparr>))"

text \<open>
  \<open>pd.melt\<close>: for every value column in turn, one row per row of the frame, with the
  identifiers copied, the column name in \<open>Month\<close> and the cell in \<open>Sales\<close>.
\<close>

definition melt_row :: "wide_row \<Rightarrow> string \<Rightarrow> melted_row" where
  "melt_row r c =
     \<lparr>Region = Region r, Province = Province r, Precision_Area = Precision_Area r,
      MARKET = MARKET r, KEY_MANU_KINZA = KEY_MANU_KINZA r, BRAND = BRAND r,
      Brand_2 = Brand_2 r, CSD_CSD_plus = CSD_CSD_plus r,
      CSD_Flavor_Segment = CSD_Flavor_Segment r, REG_DIET = REG_DIET r,
      KEY_PACKS = KEY_PACKS r, SUB_BRAND = SUB_BRAND r, PACK_TYPE = PACK_TYPE r,
      PACK_SIZE = PACK_SIZE r, ITEM = ITEM r, Month = c, Sales = cell r c\<rparr>"

definition melt :: "wide_table \<Rightarrow> string list \<Rightarrow> melted_row list" where
  "melt df value_vars = concat (map (\<lambda>c. map (\<lambda>r. melt_row r c) (rows df)) value_vars)"

text \<open>\<open>.str.replace("'", "")\<close>\<close>

definition strip_quote :: "string \<Rightarrow> string" where
  "strip_quote s = filter (\<lambda>c. c \<noteq> CHR 0x27) s"

text \<open>
  \<open>pd.to_datetime(..., format='%b%y')\<close> on one string: a month abbreviation, matched
  without regard to case, then exactly two digits; years 00 to 68 are 2000 to 2068, the
  others 1969 to 1999.  \<open>None\<close> is the ValueError of a string that does not match.
\<close>

definition lower :: "char \<Rightarrow> char" where
  "lower c =
     (case map_of (zip ''ABCDEFGHIJKLMNOPQRSTUVWXYZ'' ''abcdefghijklmnopqrstuvwxyz'') c of
        Some d \<Rightarrow> d
      | None \<Rightarrow> c)"

definition month_of_abbr :: "string \<Rightarrow> nat option" where
  "month_of_abbr a =
     map_of [(''jan'', 1), (''feb'', 2), (''mar'', 3), (''apr'', 4), (''may'', 5), (''jun'', 6),
             (''jul'', 7), (''aug'', 8), (''sep'', 9), (''oct'', 10), (''nov'', 11), (''dec'', 12)]
       (map lower a)"

definition digit_of :: "char \<Rightarrow> nat option" where
  "digit_of c =
     map_of [(CHR ''0'', 0), (CHR ''1'', 1), (CHR ''2'', 2), (CHR ''3'', 3), (CHR ''4'', 4),
             (CHR ''5'', 5), (CHR ''6'', 6), (CHR ''7'', 7), (CHR ''8'', 8), (CHR ''9'', 9)] c"

definition to_datetime :: "string \<Rightarrow> date option" where
  "to_datetime s =
     (if length s \<noteq> 5 then None
      else (case (month_of_abbr (take 3 s), digit_of (s ! 3), digit_of (s ! 4)) of
              (Some m, Some d1, Some d2) \<Rightarrow>
                (let yy = 10 * d1 + d2
                 in Some (Timestamp (if yy < 69 then 2000 + yy else 1900 + yy) m))
            | _ \<Rightarrow> None))"

text \<open>\<open>df['Date'] = ...\<close>: the row with its new column.\<close>

definition add_date :: "melted_row \<Rightarrow> date \<Rightarrow> dated_row" where
  "add_date r d = melted_row.extend r (dated_row.fields d)"

text \<open>The derived time columns \<open>Month_Name\<close>, \<open>Month_Num\<close>, \<open>Quarter\<close>, \<open>Year\<close>.\<close>

definition month_name :: "nat \<Rightarrow> string" where
  "month_name m =
     [''January'', ''February'', ''March'', ''April'', ''May'', ''June'', ''July'', ''August'',
      ''September'', ''October'', ''November'', ''December''] ! (m - 1)"

definition add_time_columns :: "dated_row \<Rightarrow> long_row" where
  "add_time_columns r =
     dated_row.extend r
       (long_row.fields (month_name (ts_month (Date r))) (ts_month (Date r))
          ((ts_month (Date r) - 1) div 3 + 1) (ts_year (Date r)))"

text \<open>
  The order of timestamps, as a count of months.  \<open>sort_values('Date')\<close> is called with
  pandas' default sorting algorithm; the transformer takes the sorting procedure as its
  first argument, and \<open>sorts_frame\<close> is what pandas promises of it whatever the algorithm:
  the result is a rearrangement of the rows, ascending in the key.
\<close>

definition date_ord :: "date \<Rightarrow> nat" where
  "date_ord d = 12 * ts_year d + ts_month d"

definition sorts_frame :: "('r \<Rightarrow> 'r \<Rightarrow> bool) \<Rightarrow> ('r list \<Rightarrow> 'r list) \<Rightarrow> bool" where
  "sorts_frame le srt \<longleftrightarrow> (\<forall>xs. sorted_wrt le (srt xs) \<and> mset (srt xs) = mset xs)"


definition date_le :: "'a dated_row_scheme \<Rightarrow> 'a dated_row_scheme \<Rightarrow> bool" where
  "date_le a b \<longleftrightarrow> date_ord (Date a) \<le> date_ord (Date b)"

text \<open>
  \<open>convert_to_long_format\<close>.  It returns \<open>False\<close> without a loaded frame.  Inside the
  \<open>try\<close>, \<open>pd.melt\<close> raises a KeyError for a value column the frame does not have, before
  \<open>df_long\<close> is assigned; \<open>to_datetime\<close> raises for the first month that does not parse,
  after \<open>df_long\<close> has been assigned the melted frame and its \<open>Month\<close> column has been
  rewritten.  Every exception ends in \<open>return False\<close>.
\<close>

definition convert_to_long_format ::
  "(dated_row list \<Rightarrow> dated_row list) \<Rightarrow> loader \<Rightarrow> bool \<times> loader" where
  "convert_to_long_format sort_values l =
     (case df_original l of
        None \<Rightarrow> (False, l)
      | Some df \<Rightarrow>
          if \<not> list_all (\<lambda>c. c \<in> set (columns df)) (monthly_cols l) then (False, l)
          else
            (let melted = melt df (monthly_cols l);
                 stripped = map (\<lambda>r. r\<lparr>Month := strip_quote (Month r)\<rparr>) melted
             in (case those (map (\<lambda>r. to_datetime (Month r)) stripped) of
                   None \<Rightarrow> (False, l\<lparr>df_long := Some (Melted stripped)\<rparr>)
                 | Some dates \<Rightarrow>
                     (True,
                      l\<lparr>df_long :=
                          Some (Long (map add_time_columns
                                        (sort_values (map2 add_date stripped dates))))\<rparr>))))"

section \<open>The metrics of the analysis scripts\<close>

text \<open>
  Results of numpy division.  The scripts divide pandas and numpy numbers, which never
  raise on a zero divisor (warnings are switched off at import): \<open>x / 0\<close> is \<open>inf\<close>,
  \<open>-inf\<close> or, for \<open>0 / 0\<close>, \<open>nan\<close>.  \<open>Series.sum()\<close> skips \<open>nan\<close> entries.
\<close>

datatype npfloat = Fin real | PInf | NInf | NaN

definition np_div :: "real \<Rightarrow> real \<Rightarrow> npfloat" where
  "np_div x y =
     (if y \<noteq> 0 then Fin (x / y) else if 0 < x then PInf else if x < 0 then NInf else NaN)"

fun np_times100 :: "npfloat \<Rightarrow> npfloat" where
  "np_times100 (Fin x) = Fin (x * 100)"
| "np_times100 v = v"




text \<open>\<open>self.df['Sales'].sum()\<close>\<close>

definition total_sales :: "'a melted_row_scheme list \<Rightarrow> real" where
  "total_sales df = sum_list (map Sales df)"

text \<open>
  \<open>df.groupby(key)['Sales'].sum()\<close>: one entry per key that occurs, keys in ascending
  order (for strings the lexical order), each with the sum of its rows.
\<close>

definition groupby_sum ::
  "('a melted_row_scheme \<Rightarrow> 'k::linorder) \<Rightarrow> 'a melted_row_scheme list \<Rightarrow> ('k \<times> real) list" where
  "groupby_sum key df =
     map (\<lambda>k. (k, sum_list (map Sales (filter (\<lambda>r. key r = k) df)))) (sort (remdups (map key df)))"

text \<open>
  \<open>.sort_values(ascending=False)\<close> on such a series, again with the default algorithm:
  the procedure is an argument, \<open>sorts_frame value_ge\<close> its contract.
\<close>

definition value_ge :: "'k \<times> real \<Rightarrow> 'k \<times> real \<Rightarrow> bool" where
  "value_ge a b \<longleftrightarrow> snd b \<le> snd a"

subsection \<open>Sales, shares and concentration by dimension\<close>

text \<open>
  The scripts repeat the same lines for each dimension (\<open>regional_sales\<close>,
  \<open>province_sales\<close>, \<open>manu_sales\<close>, \<open>brand_sales\<close>, ...):
  \<open>df.groupby(key)['Sales'].sum().sort_values(ascending=False)\<close>.  The dimension is
  the first argument here.
\<close>

definition sales_by ::
  "('a melted_row_scheme \<Rightarrow> string) \<Rightarrow> ((string \<times> real) list \<Rightarrow> (string \<times> real) list)
    \<Rightarrow> 'a melted_row_scheme list \<Rightarrow> (string \<times> real) list" where
  "sales_by key sort_desc df = sort_desc (groupby_sum key df)"

definition regional_sales ::
  "((string \<times> real) list \<Rightarrow> (string \<times> real) list) \<Rightarrow> 'a melted_row_scheme list
    \<Rightarrow> (string \<times> real) list" where
  "regional_sales sort_desc df = sales_by Region sort_desc df"


text \<open>\<open>regional_sales_millions = regional_sales / 1_000_000\<close>, and so for each dimension.\<close>

definition millions :: "('k \<times> real) list \<Rightarrow> ('k \<times> real) list" where
  "millions series = map (\<lambda>(k, sales). (k, sales / 1000000)) series"

text \<open>
  The printing loops of \<open>CSDExploratoryAnalysis.geographic_analysis\<close> and
  \<open>product_performance_analysis\<close>: for every entry of the series in millions, the share
  they print, \<open>(sales / total_sales) * 100\<close>.  Part A of \<open>geographic_analysis\<close> is the
  loop over regions.
\<close>

definition shares_printed ::
  "('a melted_row_scheme \<Rightarrow> string) \<Rightarrow> ((string \<times> real) list \<Rightarrow> (string \<times> real) list)
    \<Rightarrow> 'a melted_row_scheme list \<Rightarrow> (string \<times> npfloat) list" where
  "shares_printed key sort_desc df =
     map (\<lambda>(k, sales). (k, np_times100 (np_div sales (total_sales df))))
       (millions (sales_by key sort_desc df))"

definition regional_shares_printed ::
  "((string \<times> real) list \<Rightarrow> (string \<times> real) list) \<Rightarrow> 'a melted_row_scheme list
    \<Rightarrow> (string \<times> npfloat) list" where
  "regional_shares_printed sort_desc df = shares_printed Region sort_desc df"

text \<open>
  The share \<open>geographic_analysis\<close> returns for the top region, \<open>region_market_share\<close>:
  \<open>(regional_sales.iloc[0] / total_sales) * 100\<close>.  On an empty series \<open>iloc[0]\<close>
  raises (\<open>None\<close>).
\<close>

definition region_market_share ::
  "((string \<times> real) list \<Rightarrow> (string \<times> real) list) \<Rightarrow> 'a melted_row_scheme list
    \<Rightarrow> npfloat option" where
  "region_market_share sort_desc df =
     (case regional_sales sort_desc df of
        [] \<Rightarrow> None
      | (region, sales) # _ \<Rightarrow> Some (np_times100 (np_div sales (total_sales df))))"






subsection \<open>\<open>CSDExploratoryAnalysis.time_series_analysis\<close>: H2 against H1\<close>





subsection \<open>\<open>CSDGeographicAnalysis.regional_performance_analysis\<close>: growth by region\<close>









section \<open>Sorting procedures and sample data\<close>

text \<open>
  Two procedures that meet the contract of a descending sort: the first keeps rows with
  equal values in their order, the second turns them round.
\<close>

definition sort_desc_stable :: "('k \<times> real) list \<Rightarrow> ('k \<times> real) list" where
  "sort_desc_stable series = rev (sort_key snd (rev series))"


text \<open>The same for the ascending sort of a frame by \<open>Date\<close>.\<close>

definition sort_dates_stable :: "dated_row list \<Rightarrow> dated_row list" where
  "sort_dates_stable df = sort_key (\<lambda>r. date_ord (Date r)) df"


text \<open>The identifiers and the sales of a row, whatever further columns it has.\<close>

definition id_sales :: "'a melted_row_scheme \<Rightarrow> id_vars \<times> real" where
  "id_sales r = (id_vars.truncate r, Sales r)"


text \<open>The rows that \<open>duplicated_from\<close> does not mark, as a recursion of its own.\<close>

definition kept_from :: "'a list \<Rightarrow> 'a list \<Rightarrow> 'a list" where
  "kept_from seen xs = map fst (filter (\<lambda>p. \<not> snd p) (zip xs (duplicated_from seen xs)))"

text \<open>
  A long row to build sample frames from, a loader that holds a long frame, and the row of
  one month of 2024 for the same product.
\<close>

definition sample_row :: long_row where
  "sample_row =
     \<lparr>Region = ''East'', Province = ''P1'', Precision_Area = ''A1'', MARKET = ''M1'',
      KEY_MANU_KINZA = ''K1'', BRAND = ''B1'', Brand_2 = ''B2'', CSD_CSD_plus = ''CSD'',
      CSD_Flavor_Segment = ''COLA'', REG_DIET = ''REG'', KEY_PACKS = ''KP'', SUB_BRAND = ''SB'',
      PACK_TYPE = ''CAN'', PACK_SIZE = ''330ml'', ITEM = ''X1'',
      Month = ''Jan24'', Sales = 100, Date = Timestamp 2024 1,
      Month_Name = ''January'', Month_Num = 1, Quarter = 1, Year = 2024\<rparr>"

definition with_long :: "long_row list \<Rightarrow> loader" where
  "with_long df = \<lparr>df_original = None, df_long = Some (Long df), monthly_cols = []\<rparr>"

definition sample_month :: "string \<times> string \<times> nat \<times> real \<Rightarrow> long_row" where
  "sample_month = (\<lambda>(abbr, name, m, v).
     sample_row\<lparr>Month := abbr @ ''24'', Sales := v, Date := Timestamp 2024 m,
                  Month_Name := name, Month_Num := m, Quarter := (m - 1) div 3 + 1\<rparr>)"

text \<open>The twelve long rows of one product that sold 100 in January and nothing afterwards.\<close>

definition sample_long :: "long_row list" where
  "sample_long =
     map sample_month
       [(''Jan'', ''January'', 1, 100), (''Feb'', ''February'', 2, 0), (''Mar'', ''March'', 3, 0),
        (''Apr'', ''April'', 4, 0), (''May'', ''May'', 5, 0), (''Jun'', ''June'', 6, 0),
        (''Jul'', ''July'', 7, 0), (''Aug'', ''August'', 8, 0), (''Sep'', ''September'', 9, 0),
        (''Oct'', ''October'', 10, 0), (''Nov'', ''November'', 11, 0), (''Dec'', ''December'', 12, 0)]"

text \<open>Frames for the metrics: two regions, two provinces with equal totals, six months.\<close>

definition two_regions :: "long_row list" where
  "two_regions = [sample_row\<lparr>Sales := 100\<rparr>, sample_row\<lparr>Region := ''West'', Sales := 300\<rparr>]"





text \<open>
  Wide sheets: the identifier columns followed by value columns such as \<open>Jan'24\<close>, and
  one product that sold 100 in January.
\<close>

definition month_col :: "string \<Rightarrow> string" where
  "month_col abbr = abbr @ year_marker"

definition id_columns :: "string list" where
  "id_columns =
     [''Region'', ''Province'', ''Precision Area'', ''MARKET'', ''KEY MANU  & KINZA'', ''BRAND'',
      ''Brand-2'', ''CSD & CSD +'', ''CSD Flavor Segment'', ''REG/DIET'', ''KEY PACKS'',
      ''SUB-BRAND'', ''PACK TYPE'', ''PACK SIZE'', ''ITEM'']"

definition year_columns :: "string list" where
  "year_columns =
     map month_col [''Jan'', ''Feb'', ''Mar'', ''Apr'', ''May'', ''Jun'',
                    ''Jul'', ''Aug'', ''Sep'', ''Oct'', ''Nov'', ''Dec'']"

definition sample_wide_row :: wide_row where
  "sample_wide_row =
     \<lparr>Region = ''East'', Province = ''P1'', Precision_Area = ''A1'', MARKET = ''M1'',
      KEY_MANU_KINZA = ''K1'', BRAND = ''B1'', Brand_2 = ''B2'', CSD_CSD_plus = ''CSD'',
      CSD_Flavor_Segment = ''COLA'', REG_DIET = ''REG'', KEY_PACKS = ''KP'', SUB_BRAND = ''SB'',
      PACK_TYPE = ''CAN'', PACK_SIZE = ''330ml'', ITEM = ''X1'',
      cell = (\<lambda>c. if c = month_col ''Jan'' then 100 else 0)\<rparr>"

definition sample_loader :: "string list \<Rightarrow> wide_row list \<Rightarrow> loader" where
  "sample_loader value_columns rs =
     \<lparr>df_original = Some \<lparr>columns = id_columns @ value_columns, rows = rs\<rparr>,
      df_long = None, monthly_cols = []\<rparr>"

definition sample_loaded :: loader where
  "sample_loaded = (sample_loader year_columns [sample_wide_row])\<lparr>monthly_cols := year_columns\<rparr>"





section \<open>Properties of the normalizer\<close>

lemma count_True_map: "count_True (map P xs) = length (filter P xs)"
  by (induction xs) (simp_all add: count_True_def)

lemma length_duplicated_from [simp]: "length (duplicated_from seen xs) = length xs"
  by (induction xs arbitrary: seen) simp_all

lemma kept_from_Nil [simp]: "kept_from seen [] = []"
  by (simp add: kept_from_def)

lemma kept_from_Cons [simp]:
  "kept_from seen (x # xs) =
     (if x \<in> set seen then kept_from (x # seen) xs else x # kept_from (x # seen) xs)"
  by (simp add: kept_from_def)


lemma set_kept_from: "set (kept_from seen xs) = set xs - set seen"
  by (induction xs arbitrary: seen) auto

lemma distinct_kept_from: "distinct (kept_from seen xs)"
  by (induction xs arbitrary: seen) (auto simp: set_kept_from)

lemma duplicated_from_none:
  "count_True (duplicated_from seen xs) = 0 \<longleftrightarrow> distinct xs \<and> set xs \<inter> set seen = {}"
  by (induction xs arbitrary: seen) (auto simp: count_True_def)

lemma kept_from_id:
  "distinct xs \<Longrightarrow> set xs \<inter> set seen = {} \<Longrightarrow> kept_from seen xs = xs"
  by (induction xs arbitrary: seen) auto

lemma drop_duplicates_kept: "drop_duplicates df = kept_from [] df"
  by (simp add: drop_duplicates_def kept_from_def duplicated_def)

lemma duplicated_none: "count_True (duplicated df) = 0 \<longleftrightarrow> distinct df"
  by (simp add: duplicated_def duplicated_from_none)

lemma drop_duplicates_id: "distinct df \<Longrightarrow> drop_duplicates df = df"
  by (simp add: drop_duplicates_kept kept_from_id)

lemma distinct_drop_duplicates: "distinct (drop_duplicates df)"
  by (simp add: drop_duplicates_kept distinct_kept_from)

lemma set_drop_duplicates: "set (drop_duplicates df) = set df"
  by (simp add: drop_duplicates_kept set_kept_from)


lemma clip_negative_id:
  "filter (\<lambda>r. Sales r < 0) df = [] \<Longrightarrow> clip_negative df = df"
  by (induction df) (auto simp: clip_negative_def clip_row_def split: if_splits)

lemma clip_negative_nonneg: "filter (\<lambda>r. Sales r < 0) (clip_negative df) = []"
  by (induction df) (auto simp: clip_negative_def clip_row_def)

text \<open>The two guards of \<open>clean_data\<close> change nothing: each step is the identity when its count is 0.\<close>

lemma clean_frame_eq:
  "clean_frame df =
     (clip_negative (drop_duplicates df),
      \<lparr>duplicates = count_True (duplicated df),
       negative_sales = length (filter (\<lambda>r. Sales r < 0) (drop_duplicates df))\<rparr>)"
proof -
  have d: "(if count_True (duplicated df) > 0 then drop_duplicates df else df) = drop_duplicates df"
    using duplicated_none [of df] by (auto simp: drop_duplicates_id)
  have c: "(if length (filter (\<lambda>r. Sales r < 0) (drop_duplicates df)) > 0
            then clip_negative (drop_duplicates df) else drop_duplicates df)
           = clip_negative (drop_duplicates df)"
    by (auto simp: clip_negative_id)
  show ?thesis
    unfolding clean_frame_def Let_def d count_True_map c ..
qed

lemma clean_data_Long:
  "df_long l = Some (Long df) \<Longrightarrow>
   clean_data l =
     (True, l\<lparr>df_long := Some (Long (fst (clean_frame df)))\<rparr>, Some (snd (clean_frame df)))"
  by (simp add: clean_data_def split: prod.splits)



text \<open>
  Claim C10.  Duplicates are dropped before negative values are clipped, so the cleaned
  frame can hold identical rows: two rows that differ only in their sales, -5 and -3, are
  both kept and both clipped to 0.
\<close>

theorem clean_data_not_duplicate_free:
  "clean_data (with_long [sample_row\<lparr>Sales := - 5\<rparr>, sample_row\<lparr>Sales := - 3\<rparr>]) =
     (True, with_long [sample_row\<lparr>Sales := 0\<rparr>, sample_row\<lparr>Sales := 0\<rparr>],
      Some \<lparr>duplicates = 0, negative_sales = 2\<rparr>)"
  by (simp add: clean_data_def clean_frame_def with_long_def sample_row_def drop_duplicates_def
      duplicated_def count_True_def clip_negative_def clip_row_def)

text \<open>
  Claim C7, as stated, fails: run on the frame that a first run has cleaned, \<open>clean_data\<close>
  removes a duplicate that the first run's clipping created.
\<close>

theorem clean_data_second_run_removes:
  "clean_data (with_long [sample_row\<lparr>Sales := - 5\<rparr>, sample_row\<lparr>Sales := - 3\<rparr>]) =
     (True, with_long [sample_row\<lparr>Sales := 0\<rparr>, sample_row\<lparr>Sales := 0\<rparr>],
      Some \<lparr>duplicates = 0, negative_sales = 2\<rparr>) \<and>
   clean_data (with_long [sample_row\<lparr>Sales := 0\<rparr>, sample_row\<lparr>Sales := 0\<rparr>]) =
     (True, with_long [sample_row\<lparr>Sales := 0\<rparr>],
      Some \<lparr>duplicates = 1, negative_sales = 0\<rparr>)"
  by (simp add: clean_data_def clean_frame_def with_long_def sample_row_def drop_duplicates_def
      duplicated_def count_True_def clip_negative_def clip_row_def)

text \<open>
  Claim C7, amended.  A second run clips no value.  It removes no row and leaves the frame
  as it is whenever the frame the first run produced has no two identical rows, which is so
  in particular when the first run clipped nothing.
\<close>

theorem clean_data_second_run:
  assumes "df_long l = Some (Long df)"
    and "clean_data l = (ok1, l1, Some r1)"
    and "clean_data l1 = (ok2, l2, Some r2)"
  shows "negative_sales r2 = 0 \<and>
         (negative_sales r1 = 0 \<longrightarrow> duplicates r2 = 0 \<and> l2 = l1) \<and>
         (\<forall>df1. df_long l1 = Some (Long df1) \<and> distinct df1 \<longrightarrow> duplicates r2 = 0 \<and> l2 = l1)"
proof -
  let ?d1 = "clip_negative (drop_duplicates df)"
  have l1: "l1 = l\<lparr>df_long := Some (Long ?d1)\<rparr>"
    and r1: "r1 = snd (clean_frame df)"
    using assms(1,2) by (simp_all add: clean_data_Long clean_frame_eq)
  have long1: "df_long l1 = Some (Long ?d1)"
    by (simp add: l1)
  have run2: "clean_data l1 = (True, l1\<lparr>df_long := Some (Long (fst (clean_frame ?d1)))\<rparr>,
                Some (snd (clean_frame ?d1)))"
    using long1 by (rule clean_data_Long)
  have r2: "r2 = snd (clean_frame ?d1)"
    and l2: "l2 = l1\<lparr>df_long := Some (Long (fst (clean_frame ?d1)))\<rparr>"
    using assms(3) run2 by simp_all
  have no_neg: "filter (\<lambda>r. Sales r < 0) (drop_duplicates ?d1) = []"
  proof -
    have "\<forall>r \<in> set ?d1. \<not> Sales r < 0"
      using clip_negative_nonneg [of "drop_duplicates df"] by (simp add: filter_empty_conv)
    then show ?thesis
      by (simp add: filter_empty_conv set_drop_duplicates)
  qed
  have neg2: "negative_sales r2 = 0"
    by (simp add: r2 clean_frame_eq no_neg)
  have same: "duplicates r2 = 0 \<and> l2 = l1" if "distinct ?d1"
  proof -
    have "drop_duplicates ?d1 = ?d1"
      using that by (rule drop_duplicates_id)
    moreover have "clip_negative ?d1 = ?d1"
      using clip_negative_nonneg [of "drop_duplicates df"] by (rule clip_negative_id)
    ultimately show ?thesis
      using that by (simp add: r2 clean_frame_eq duplicated_none l2 l1)
  qed
  have dist: "distinct ?d1" if "negative_sales r1 = 0"
  proof -
    have "clip_negative (drop_duplicates df) = drop_duplicates df"
      using that by (simp add: r1 clean_frame_eq clip_negative_id)
    then show ?thesis
      by (simp add: distinct_drop_duplicates)
  qed
  show ?thesis
    using long1 neg2 same dist by auto
qed

text \<open>
  Claim C7, amended, on a frame with one duplicate and no negative value: the first run
  removes the duplicate, the second changes nothing.
\<close>

theorem clean_data_second_run_witness:
  "df_long (with_long [sample_row, sample_row, sample_row\<lparr>Sales := 7\<rparr>])
     = Some (Long [sample_row, sample_row, sample_row\<lparr>Sales := 7\<rparr>]) \<and>
   clean_data (with_long [sample_row, sample_row, sample_row\<lparr>Sales := 7\<rparr>])
     = (True, with_long [sample_row, sample_row\<lparr>Sales := 7\<rparr>],
        Some \<lparr>duplicates = 1, negative_sales = 0\<rparr>) \<and>
   clean_data (with_long [sample_row, sample_row\<lparr>Sales := 7\<rparr>])
     = (True, with_long [sample_row, sample_row\<lparr>Sales := 7\<rparr>],
        Some \<lparr>duplicates = 0, negative_sales = 0\<rparr>) \<and>
   negative_sales \<lparr>duplicates = 0, negative_sales = 0\<rparr> = 0 \<and>
   negative_sales \<lparr>duplicates = 1, negative_sales = 0\<rparr> = 0 \<and>
   duplicates \<lparr>duplicates = 0, negative_sales = 0\<rparr> = 0"
proof -
  let ?l = "with_long [sample_row, sample_row, sample_row\<lparr>Sales := 7\<rparr>]"
  let ?l1 = "with_long [sample_row, sample_row\<lparr>Sales := 7\<rparr>]"
  have a: "df_long ?l = Some (Long [sample_row, sample_row, sample_row\<lparr>Sales := 7\<rparr>])"
    by (simp add: with_long_def)
  have b: "clean_data ?l = (True, ?l1, Some \<lparr>duplicates = 1, negative_sales = 0\<rparr>)"
    by (simp add: clean_data_def clean_frame_def with_long_def sample_row_def drop_duplicates_def
      duplicated_def count_True_def clip_negative_def clip_row_def)
  have c: "clean_data ?l1 = (True, ?l1, Some \<lparr>duplicates = 0, negative_sales = 0\<rparr>)"
    by (simp add: clean_data_def clean_frame_def with_long_def sample_row_def drop_duplicates_def
      duplicated_def count_True_def clip_negative_def clip_row_def)
  show ?thesis
    using clean_data_second_run [OF a b c] a b c by simp
qed

section \<open>Properties of the metrics\<close>

lemma sum_list_filter_key:
  fixes f :: "'a \<Rightarrow> real"
  assumes "finite K" and "key ` set xs \<subseteq> K"
  shows "(\<Sum>k\<in>K. sum_list (map f (filter (\<lambda>r. key r = k) xs))) = sum_list (map f xs)"
  using assms(2)
proof (induction xs)
  case Nil
  then show ?case by simp
next
  case (Cons x xs)
  have split: "sum_list (map f (filter (\<lambda>r. key r = k) (x # xs)))
      = (if k = key x then f x else 0) + sum_list (map f (filter (\<lambda>r. key r = k) xs))" for k
    by simp
  have "key x \<in> K"
    using Cons.prems by simp
  then have "(\<Sum>k\<in>K. if k = key x then f x else 0) = f x"
    using assms(1) by simp
  moreover have "(\<Sum>k\<in>K. sum_list (map f (filter (\<lambda>r. key r = k) xs))) = sum_list (map f xs)"
    using Cons by simp
  ultimately show ?case
    unfolding split by (simp add: sum.distrib)
qed

lemma groupby_sum_total: "sum_list (map snd (groupby_sum key df)) = total_sales df"
proof -
  let ?ks = "sort (remdups (map key df))"
  have "sum_list (map snd (groupby_sum key df))
        = sum_list (map (\<lambda>k. sum_list (map Sales (filter (\<lambda>r. key r = k) df))) ?ks)"
    by (simp add: groupby_sum_def comp_def)
  also have "\<dots> = (\<Sum>k\<in>set ?ks. sum_list (map Sales (filter (\<lambda>r. key r = k) df)))"
    by (rule sum_list_distinct_conv_sum_set) simp
  also have "\<dots> = sum_list (map Sales df)"
    by (rule sum_list_filter_key) simp_all
  finally show ?thesis
    by (simp add: total_sales_def)
qed

lemma sum_list_map_perm:
  fixes f :: "'a \<Rightarrow> real"
  assumes "mset ys = mset xs"
  shows "sum_list (map f ys) = sum_list (map f xs)"
proof -
  have "sum_mset (image_mset f (mset ys)) = sum_mset (image_mset f (mset xs))"
    using assms by simp
  then show ?thesis
    by (simp only: mset_map [symmetric] sum_mset_sum_list)
qed




lemma sorts_frame_perm: "sorts_frame le srt \<Longrightarrow> mset (srt xs) = mset xs"
  by (simp add: sorts_frame_def)


lemma sorted_wrt_rev_sort_key: "sorted_wrt value_ge (rev (sort_key snd xs))"
proof -
  have "sorted (map snd (sort_key snd xs))"
    by simp
  then have "sorted_wrt (\<lambda>a b. snd a \<le> snd b) (sort_key snd xs)"
    by (simp only: sorted_map)
  then show ?thesis
    by (simp add: sorted_wrt_rev value_ge_def)
qed

lemma sorts_frame_desc_stable: "sorts_frame value_ge sort_desc_stable"
  by (simp add: sorts_frame_def sort_desc_stable_def sorted_wrt_rev_sort_key)


lemma sum_list_divide_const:
  fixes f :: "'a \<Rightarrow> real"
  shows "sum_list (map (\<lambda>x. f x / c) xs) = sum_list (map f xs) / c"
  by (induction xs) (simp_all add: add_divide_distrib)

lemma shares_printed_finite:
  assumes "total_sales df \<noteq> 0"
  shows "map snd (shares_printed key sort_desc df)
         = map Fin (map (\<lambda>p. snd p / 1000000 / total_sales df * 100) (sales_by key sort_desc df))"
  using assms by (simp add: shares_printed_def millions_def np_div_def split_def comp_def)

text \<open>
  Claim C2 against the code.  The printing loops divide the sales in millions by the total
  in units, so for every dimension, whenever the total is positive, the shares they print
  are finite and sum to 100 / 1000000, that is 0.0001, not to 100.
\<close>

theorem shares_printed_sum:
  assumes "sorts_frame value_ge sort_desc" and "0 < total_sales df"
  shows "\<exists>shares. map snd (shares_printed key sort_desc df) = map Fin shares \<and>
           sum_list shares = 1 / 10000"
proof -
  let ?T = "total_sales df"
  let ?shares = "map (\<lambda>p. snd p / 1000000 / ?T * 100) (sales_by key sort_desc df)"
  have perm: "mset (sales_by key sort_desc df) = mset (groupby_sum key df)"
    using assms(1) by (simp add: sales_by_def sorts_frame_perm)
  have "sum_list ?shares = sum_list (map (\<lambda>p. snd p / (?T * 10000)) (groupby_sum key df))"
    using sum_list_map_perm [OF perm, of "\<lambda>p. snd p / 1000000 / ?T * 100"] by (simp add: field_simps)
  also have "\<dots> = sum_list (map snd (groupby_sum key df)) / (?T * 10000)"
    by (rule sum_list_divide_const)
  also have "\<dots> = 1 / 10000"
    using assms(2) by (simp add: groupby_sum_total)
  finally have "sum_list ?shares = 1 / 10000" .
  moreover have "map snd (shares_printed key sort_desc df) = map Fin ?shares"
    using assms(2) by (simp add: shares_printed_finite)
  ultimately show ?thesis
    by blast
qed

lemma groupby_two_regions: "groupby_sum Region two_regions = [(''East'', 100), (''West'', 300)]"
  by (simp add: groupby_sum_def two_regions_def sample_row_def)

text \<open>
  Claim C2 at the failing input, East 100 and West 300: the printed shares are 0.000075 and
  0.000025, while the share the function returns for the top region is 75.
\<close>

theorem shares_printed_sum_witness:
  "0 < total_sales two_regions \<and>
   regional_shares_printed sort_desc_stable two_regions
     = [(''West'', Fin (3 / 40000)), (''East'', Fin (1 / 40000))] \<and>
   region_market_share sort_desc_stable two_regions = Some (Fin 75) \<and>
   (\<exists>shares. map snd (regional_shares_printed sort_desc_stable two_regions) = map Fin shares \<and>
      sum_list shares = 1 / 10000)"
proof -
  have t: "total_sales two_regions = 400"
    by (simp add: total_sales_def two_regions_def sample_row_def)
  have "regional_shares_printed sort_desc_stable two_regions
     = [(''West'', Fin (3 / 40000)), (''East'', Fin (1 / 40000))]"
    by (simp add: regional_shares_printed_def shares_printed_def millions_def sales_by_def
        groupby_two_regions
        sort_desc_stable_def t np_div_def)
  moreover have "region_market_share sort_desc_stable two_regions = Some (Fin 75)"
    by (simp add: region_market_share_def regional_sales_def sales_by_def groupby_two_regions
        sort_desc_stable_def t np_div_def)
  ultimately show ?thesis
    using shares_printed_sum [OF sorts_frame_desc_stable, of two_regions Region] t
    by (simp add: regional_shares_printed_def)
qed






section \<open>Properties of the transformer, the ranking and the growth rates\<close>

lemma those_map_length: "those (map f xs) = Some ys \<Longrightarrow> length ys = length xs"
  by (induction xs arbitrary: ys) (auto split: option.splits)

lemma id_sales_add_date: "id_sales (add_date r d) = id_sales r"
  by (simp add: id_sales_def add_date_def melted_row.defs dated_row.defs id_vars.defs)

lemma id_sales_add_time_columns: "id_sales (add_time_columns r) = id_sales r"
  by (simp add: id_sales_def add_time_columns_def dated_row.defs long_row.defs id_vars.defs)

lemma id_sales_Month_update: "id_sales (r\<lparr>Month := m\<rparr>) = id_sales r"
  by (simp add: id_sales_def id_vars.defs)

lemma id_sales_melt_row: "id_sales (melt_row r c) = (id_vars.truncate r, cell r c)"
  by (simp add: id_sales_def melt_row_def id_vars.defs)

lemma map_id_sales_dated:
  "length ds = length xs \<Longrightarrow> map id_sales (map2 add_date xs ds) = map id_sales xs"
  by (induction xs ds rule: list_induct2') (simp_all add: id_sales_add_date)

lemma count_by_id_sales:
  "length (filter (\<lambda>x. id_vars.truncate x = i) xs)
   = length (filter (\<lambda>p. fst p = i) (map id_sales xs))"
  by (induction xs) (simp_all add: id_sales_def)

lemma sum_by_id_sales:
  "sum_list (map Sales (filter (\<lambda>x. id_vars.truncate x = i) xs))
   = sum_list (map snd (filter (\<lambda>p. fst p = i) (map id_sales xs)))"
  by (induction xs) (simp_all add: id_sales_def)

lemma perm_count:
  assumes "mset ps = mset qs"
  shows "length (filter P ps) = length (filter P qs)"
proof -
  have "mset (filter P ps) = mset (filter P qs)"
    using assms by (simp only: mset_filter)
  then show ?thesis
    by (rule mset_eq_length)
qed

lemma perm_sum:
  fixes ps :: "('a \<times> real) list"
  assumes "mset ps = mset qs"
  shows "sum_list (map snd (filter P ps)) = sum_list (map snd (filter P qs))"
proof -
  have "mset (filter P ps) = mset (filter P qs)"
    using assms by (simp only: mset_filter)
  then show ?thesis
    by (rule sum_list_map_perm)
qed

lemma melt_count:
  "length (filter (\<lambda>p. fst p = i) (map id_sales (melt df cols)))
   = length cols * length (filter (\<lambda>r. id_vars.truncate r = i) (rows df))"
  unfolding melt_def by (induction cols) (simp_all add: comp_def id_sales_melt_row)

lemma melt_sum:
  "sum_list (map snd (filter (\<lambda>p. fst p = i) (map id_sales (melt df cols))))
   = sum_list (map (\<lambda>r. sum_list (map (cell r) cols))
               (filter (\<lambda>r. id_vars.truncate r = i) (rows df)))"
proof -
  have one: "sum_list (map snd (filter (\<lambda>p. fst p = i)
                 (map (\<lambda>r. (id_vars.truncate r, cell r c)) rs)))
             = sum_list (map (\<lambda>r. cell r c) (filter (\<lambda>r. id_vars.truncate r = i) rs))"
    for c and rs :: "wide_row list"
    by (induction rs) simp_all
  show ?thesis
    unfolding melt_def
    by (induction cols) (simp_all add: comp_def id_sales_melt_row sum_list_addf one)
qed

text \<open>What a successful run of the transformer leaves in \<open>df_long\<close>.\<close>

lemma convert_to_long_format_True:
  assumes "df_original l = Some df"
    and "convert_to_long_format sort_values l = (True, l')"
  shows "\<exists>dates. length dates = length (melt df (monthly_cols l)) \<and>
           those (map (\<lambda>r. to_datetime (strip_quote (Month r))) (melt df (monthly_cols l)))
             = Some dates \<and>
           df_long l' = Some (Long (map add_time_columns (sort_values
             (map2 add_date (map (\<lambda>r. r\<lparr>Month := strip_quote (Month r)\<rparr>)
                                (melt df (monthly_cols l))) dates))))"
proof -
  let ?stripped = "map (\<lambda>r. r\<lparr>Month := strip_quote (Month r)\<rparr>) (melt df (monthly_cols l))"
  have m: "map (\<lambda>r. to_datetime (Month r)) ?stripped
           = map (\<lambda>r. to_datetime (strip_quote (Month r))) (melt df (monthly_cols l))"
    by (simp add: comp_def)
  obtain dates where d: "those (map (\<lambda>r. to_datetime (Month r)) ?stripped) = Some dates"
    and l': "l' = l\<lparr>df_long := Some (Long (map add_time_columns
                     (sort_values (map2 add_date ?stripped dates))))\<rparr>"
    using assms
    by (auto simp: convert_to_long_format_def Let_def split: if_splits option.splits)
  have "length dates = length (melt df (monthly_cols l))"
    using those_map_length [OF d] by simp
  then show ?thesis
    using d l' unfolding m by auto
qed

text \<open>
  Claim C1.  When the transformer succeeds with twelve month columns, the long frame holds,
  for every identifier tuple, twelve rows for each wide row with these identifiers, and their
  sales sum to the sum of the twelve monthly cells of those wide rows.  For a wide row whose
  identifiers no other row has, these are exactly twelve long rows whose sales sum to the sum
  of its twelve monthly fields.
\<close>

theorem convert_to_long_format_sum_preserving:
  assumes "df_original l = Some df"
    and "convert_to_long_format sort_values l = (True, l')"
    and "sorts_frame date_le sort_values"
    and "length (monthly_cols l) = 12"
  shows "\<exists>long. df_long l' = Some (Long long) \<and>
           (\<forall>i. length (filter (\<lambda>x. id_vars.truncate x = i) long)
                  = 12 * length (filter (\<lambda>r. id_vars.truncate r = i) (rows df)) \<and>
                sum_list (map Sales (filter (\<lambda>x. id_vars.truncate x = i) long))
                  = sum_list (map (\<lambda>r. sum_list (map (cell r) (monthly_cols l)))
                               (filter (\<lambda>r. id_vars.truncate r = i) (rows df))))"
proof -
  let ?melted = "melt df (monthly_cols l)"
  let ?stripped = "map (\<lambda>r. r\<lparr>Month := strip_quote (Month r)\<rparr>) ?melted"
  obtain dates where len: "length dates = length ?melted"
    and long: "df_long l' = Some (Long (map add_time_columns (sort_values
                 (map2 add_date ?stripped dates))))"
    using convert_to_long_format_True [OF assms(1,2)] by blast
  let ?dated = "map2 add_date ?stripped dates"
  let ?long = "map add_time_columns (sort_values ?dated)"
  have "map id_sales ?long = map id_sales (sort_values ?dated)"
    by (simp add: comp_def id_sales_add_time_columns)
  then have "mset (map id_sales ?long) = mset (map id_sales ?dated)"
    using sorts_frame_perm [OF assms(3), of ?dated] by (simp only: mset_map)
  also have "map id_sales ?dated = map id_sales ?stripped"
    by (rule map_id_sales_dated) (simp add: len)
  also have "\<dots> = map id_sales ?melted"
    by (simp add: comp_def id_sales_Month_update)
  finally have perm: "mset (map id_sales ?long) = mset (map id_sales ?melted)" .
  have "length (filter (\<lambda>x. id_vars.truncate x = i) ?long)
          = 12 * length (filter (\<lambda>r. id_vars.truncate r = i) (rows df))" for i
    unfolding count_by_id_sales perm_count [OF perm] melt_count assms(4) ..
  moreover have "sum_list (map Sales (filter (\<lambda>x. id_vars.truncate x = i) ?long))
          = sum_list (map (\<lambda>r. sum_list (map (cell r) (monthly_cols l)))
               (filter (\<lambda>r. id_vars.truncate r = i) (rows df)))" for i
    unfolding sum_by_id_sales perm_sum [OF perm] melt_sum ..
  ultimately show ?thesis
    using long by blast
qed

lemma contains_year: "contains (month_col a) year_marker"
  by (induction a) (simp_all add: month_col_def year_marker_def)

lemma id_columns_no_marker: "filter (\<lambda>col. contains col year_marker) id_columns = []"
  by (simp add: id_columns_def year_marker_def)

lemma identify_sample:
  "identify_monthly_columns (sample_loader year_columns rs)
   = Some ((sample_loader year_columns rs)\<lparr>monthly_cols := year_columns\<rparr>)"
proof -
  have "filter (\<lambda>col. contains col year_marker) year_columns = year_columns"
    by (simp add: year_columns_def contains_year)
  then show ?thesis
    by (simp add: identify_monthly_columns_def sample_loader_def id_columns_no_marker)
qed


lemma convert_sample:
  "convert_to_long_format sort_dates_stable sample_loaded
   = (True, sample_loaded\<lparr>df_long := Some (Long sample_long)\<rparr>)"
  by (simp add: convert_to_long_format_def sample_loaded_def sample_loader_def year_columns_def
      id_columns_def melt_def melt_row_def sample_wide_row_def month_col_def year_marker_def
      strip_quote_def to_datetime_def month_of_abbr_def lower_def digit_of_def
      sort_dates_stable_def add_date_def add_time_columns_def month_name_def date_ord_def
      melted_row.defs dated_row.defs long_row.defs sample_long_def sample_month_def
      sample_row_def)

lemma sorted_wrt_date_le:
  "sorted_wrt date_le df = sorted (map (\<lambda>r. date_ord (Date r)) df)"
  by (induction df) (auto simp: date_le_def)

lemma sorts_frame_dates_stable: "sorts_frame date_le sort_dates_stable"
proof -
  have "sorted_wrt date_le (sort_key (\<lambda>r. date_ord (Date r)) xs)" for xs :: "dated_row list"
    by (simp only: sorted_wrt_date_le sorted_sort_key)
  then show ?thesis
    by (simp add: sorts_frame_def sort_dates_stable_def)
qed


text \<open>Claim C1 on the sheet with one product: twelve long rows, sales 100 in all.\<close>

theorem convert_to_long_format_sum_preserving_witness:
  "df_original sample_loaded = Some \<lparr>columns = id_columns @ year_columns, rows = [sample_wide_row]\<rparr> \<and>
   convert_to_long_format sort_dates_stable sample_loaded
     = (True, sample_loaded\<lparr>df_long := Some (Long sample_long)\<rparr>) \<and>
   length (monthly_cols sample_loaded) = 12 \<and>
   length (filter (\<lambda>x. id_vars.truncate x = id_vars.truncate sample_wide_row) sample_long) = 12 \<and>
   sum_list (map Sales (filter (\<lambda>x. id_vars.truncate x = id_vars.truncate sample_wide_row)
                          sample_long)) = 100"
proof -
  have a: "df_original sample_loaded
           = Some \<lparr>columns = id_columns @ year_columns, rows = [sample_wide_row]\<rparr>"
    by (simp add: sample_loaded_def sample_loader_def)
  have c: "length (monthly_cols sample_loaded) = 12"
    by (simp add: sample_loaded_def year_columns_def)
  have s: "sum_list (map (cell sample_wide_row) (monthly_cols sample_loaded)) = 100"
    by (simp add: sample_loaded_def year_columns_def sample_wide_row_def month_col_def)
  obtain long where "df_long (sample_loaded\<lparr>df_long := Some (Long sample_long)\<rparr>) = Some (Long long)"
    and "\<forall>i. length (filter (\<lambda>x. id_vars.truncate x = i) long)
               = 12 * length (filter (\<lambda>r. id_vars.truncate r = i) [sample_wide_row]) \<and>
             sum_list (map Sales (filter (\<lambda>x. id_vars.truncate x = i) long))
               = sum_list (map (\<lambda>r. sum_list (map (cell r) (monthly_cols sample_loaded)))
                     (filter (\<lambda>r. id_vars.truncate r = i) [sample_wide_row]))"
    using convert_to_long_format_sum_preserving
      [OF a convert_sample sorts_frame_dates_stable c] by auto
  then have "length (filter (\<lambda>x. id_vars.truncate x = id_vars.truncate sample_wide_row) sample_long) = 12"
    and "sum_list (map Sales (filter (\<lambda>x. id_vars.truncate x = id_vars.truncate sample_wide_row)
                          sample_long)) = 100"
    using s by simp_all
  then show ?thesis
    using a c convert_sample by simp
qed






































end
